theory Spec2Isabelle
  imports Main
begin

section \<open>Python values\<close>

text \<open>
  The bot moves JSON documents between the AnonPay gateway, the SQLite store and Discord.
  A JSON value, as \<open>json.loads\<close> returns it, is a value of \<open>json\<close>; \<open>JNull\<close> is
  Python's \<open>None\<close>. JSON numbers are integers here, and a \<open>dict[str, Any]\<close> is an
  association list in insertion order.
\<close>

datatype json =
    JNull
  | JBool bool
  | JInt int
  | JStr string
  | JList "json list"
  | JObj "(string \<times> json) list"

type_synonym pydict = "(string \<times> json) list"

text \<open>Truth value of a Python object: \<open>None\<close>, \<open>False\<close>, \<open>0\<close> and empty containers are false.\<close>

fun truthy :: "json \<Rightarrow> bool" where
  "truthy JNull = False"
| "truthy (JBool b) = b"
| "truthy (JInt i) = (i \<noteq> 0)"
| "truthy (JStr s) = (s \<noteq> [])"
| "truthy (JList xs) = (xs \<noteq> [])"
| "truthy (JObj kvs) = (kvs \<noteq> [])"

text \<open>\<open>a or b\<close> on Python objects.\<close>

definition py_or :: "json \<Rightarrow> json \<Rightarrow> json" where
  "py_or a b = (if truthy a then a else b)"

definition digit_char :: "nat \<Rightarrow> char" where
  "digit_char d = ''0123456789'' ! d"

function digits :: "nat \<Rightarrow> string" where
  "digits n = (if n < 10 then [digit_char n] else digits (n div 10) @ [digit_char (n mod 10)])"
  by pat_completeness auto
termination
  by (relation "measure id") auto

declare digits.simps [simp del]

text \<open>\<open>str(i)\<close> for an \<open>int\<close>.\<close>

definition str_int :: "int \<Rightarrow> string" where
  "str_int i = (if i < 0 then CHR ''-'' # digits (nat (- i)) else digits (nat i))"

fun join :: "string \<Rightarrow> string list \<Rightarrow> string" where
  "join sep [] = []"
| "join sep [x] = x"
| "join sep (x # y # ys) = x @ sep @ join sep (y # ys)"

text \<open>
  \<open>repr\<close> of a value inside a container; a string is put between single quotes
  (Python's escaping of quotes and control characters inside it is left out).
\<close>

fun py_repr :: "json \<Rightarrow> string" where
  "py_repr JNull = ''None''"
| "py_repr (JBool b) = (if b then ''True'' else ''False'')"
| "py_repr (JInt i) = str_int i"
| "py_repr (JStr s) = [CHR 0x27] @ s @ [CHR 0x27]"
| "py_repr (JList xs) = ''['' @ join '', '' (map py_repr xs) @ '']''"
| "py_repr (JObj kvs) =
     ''{'' @ join '', '' (map (\<lambda>kv. [CHR 0x27] @ fst kv @ [CHR 0x27] @ '': '' @ py_repr (snd kv)) kvs) @ ''}''"

text \<open>\<open>str(v)\<close>: a string is itself, \<open>None\<close> is the text \<open>None\<close>.\<close>

definition py_str :: "json \<Rightarrow> string" where
  "py_str v = (case v of JStr s \<Rightarrow> s | _ \<Rightarrow> py_repr v)"

definition lower_char :: "char \<Rightarrow> char" where
  "lower_char c =
     (case map_of (zip ''ABCDEFGHIJKLMNOPQRSTUVWXYZ'' ''abcdefghijklmnopqrstuvwxyz'') c of
        None \<Rightarrow> c
      | Some d \<Rightarrow> d)"

text \<open>\<open>s.lower()\<close> on the ASCII letters.\<close>

definition lower :: "string \<Rightarrow> string" where
  "lower s = map lower_char s"

text \<open>\<open>d.get(k)\<close>, \<open>d.get(k, default)\<close> and \<open>d[k] = v\<close>.\<close>

definition dict_get :: "pydict \<Rightarrow> string \<Rightarrow> json" where
  "dict_get d k = (case map_of d k of None \<Rightarrow> JNull | Some v \<Rightarrow> v)"

definition dict_get_default :: "pydict \<Rightarrow> string \<Rightarrow> json \<Rightarrow> json" where
  "dict_get_default d k dflt = (case map_of d k of None \<Rightarrow> dflt | Some v \<Rightarrow> v)"

fun dict_set :: "pydict \<Rightarrow> string \<Rightarrow> json \<Rightarrow> pydict" where
  "dict_set [] k v = [(k, v)]"
| "dict_set ((k', v') # d) k v = (if k' = k then (k, v) # d else (k', v') # dict_set d k v)"

section \<open>Data model\<close>

datatype error = AnonpayError string | RuntimeError string

text \<open>services.py, \<open>FINAL_STATUSES\<close>.\<close>

definition FINAL_STATUSES :: "string set" where
  "FINAL_STATUSES =
     {''finished'', ''paid partially'', ''failed'', ''expired'', ''halted'', ''refunded''}"

text \<open>A row of \<open>guild_settings\<close>; the three columns are \<open>TEXT NOT NULL\<close>.\<close>

record guild_settings =
  gs_guild_id :: int
  payout_address :: string
  ticker_to :: string
  network_to :: string

text \<open>A payment profile as \<open>get_payment_profile\<close> returns it.\<close>

record profile =
  p_id :: int
  p_guild_id :: int
  p_name :: string
  p_role_id :: "int option"
  p_duration_days :: "int option"
  p_parameters :: pydict
  p_donation_mode :: bool

text \<open>services.py, \<open>PaymentSession\<close>. Instants are microseconds on the UTC time line.\<close>

record payment_session =
  s_id :: int
  s_guild_id :: int
  s_user_id :: int
  s_profile_id :: int
  s_anonpay_id :: string
  s_status :: string
  s_status_url :: json
  s_checkout_url :: json
  s_webhook_url :: json
  s_expires_at :: int
  s_last_payload :: "pydict option"

text \<open>A row of \<open>payment_sessions\<close>; the payload column holds the document that was dumped into it.\<close>

record session_row =
  r_id :: int
  r_guild_id :: int
  r_user_id :: int
  r_payment_profile_id :: int
  r_anonpay_id :: string
  r_status :: string
  r_status_url :: json
  r_checkout_url :: json
  r_webhook_url :: json
  r_expires_at :: int
  r_created_at :: int
  r_last_status_check :: "int option"
  r_last_status :: "string option"
  r_last_payload :: "pydict option"

text \<open>A row of \<open>subscriptions\<close>.\<close>

record subscription_row =
  sub_id :: int
  sub_guild_id :: int
  sub_user_id :: int
  sub_payment_profile_id :: int
  sub_role_id :: "int option"
  sub_expires_at :: int
  sub_created_at :: int
  sub_last_notified_at :: "int option"
  sub_webhook_url :: json

record database =
  profiles :: "profile list"
  sessions :: "session_row list"
  subscriptions :: "subscription_row list"
  next_session_id :: int
  next_subscription_id :: int

text \<open>
  What the bot does to the outside world, in the order it does it. A webhook post, a role
  change and a direct message can fail on the other side; every caller swallows that
  failure, so the trace records the attempt. \<open>NotifyUser\<close> is a call of
  \<open>_notify_user\<close>; its flag tells whether the user could be looked up, that is whether the
  message was handed to Discord.
\<close>

datatype effect =
    CreateCheckout pydict
  | FetchStatus int json
  | PostWebhook json pydict
  | AddRoles int int int
  | RemoveRoles int int int
  | NotifyUser int string string bool

record world =
  db :: database
  effects :: "effect list"
  tick :: nat

text \<open>A Discord guild as the bot sees it: its name, the ids of its roles and of its members.\<close>

record guild =
  guild_name :: string
  guild_roles :: "int list"
  guild_members :: "int list"

text \<open>
  The collaborators. \<open>clock\<close> gives the instant of the k-th reading of the wall clock,
  \<open>isoformat\<close> the ISO-8601 text of an instant. The gateway adapter (anonpay.py) answers
  a request with a JSON object (\<open>dict[str, Any]\<close>, \<open>Inr\<close>) or raises \<open>AnonpayError\<close> with
  a message (\<open>Inl\<close>); it turns time-outs and network errors into \<open>AnonpayError\<close> itself.
  \<open>resolve_user\<close> tells whether \<open>get_user\<close> or \<open>fetch_user\<close> finds a user.
\<close>

record env =
  clock :: "nat \<Rightarrow> int"
  isoformat :: "int \<Rightarrow> string"
  session_ttl_minutes :: int
  create_checkout :: "pydict \<Rightarrow> string + pydict"
  fetch_status :: "json \<Rightarrow> string + pydict"
  get_guild :: "int \<Rightarrow> guild option"
  resolve_user :: "int \<Rightarrow> bool"

definition minutes :: "int \<Rightarrow> int" where
  "minutes m = m * 60000000"

definition days :: "int \<Rightarrow> int" where
  "days d = d * 86400000000"

text \<open>database.py, \<open>utc_now\<close>: every call reads the clock again.\<close>

definition utc_now :: "env \<Rightarrow> world \<Rightarrow> int \<times> world" where
  "utc_now env w = (clock env (tick w), w\<lparr>tick := Suc (tick w)\<rparr>)"

definition emit :: "effect \<Rightarrow> world \<Rightarrow> world" where
  "emit e w = w\<lparr>effects := effects w @ [e]\<rparr>"

section \<open>The store (database.py)\<close>

text \<open>
  \<open>create_payment_session\<close>: the insert takes the next id of the \<open>AUTOINCREMENT\<close>
  column; the id returned is the greatest one among the rows of this guild, user and
  AnonPay id.
\<close>

definition create_payment_session ::
  "env \<Rightarrow> world \<Rightarrow> int \<Rightarrow> int \<Rightarrow> int \<Rightarrow> string \<Rightarrow> string \<Rightarrow> json \<Rightarrow> json \<Rightarrow> json \<Rightarrow> int \<Rightarrow> pydict
     \<Rightarrow> int \<times> world" where
  "create_payment_session env w guild_id user_id payment_profile_id anonpay_id status status_url
       checkout_url webhook_url expires_at payload =
     (case utc_now env w of (now, w1) \<Rightarrow>
        let d = db w1;
            row = \<lparr>r_id = next_session_id d, r_guild_id = guild_id, r_user_id = user_id,
                   r_payment_profile_id = payment_profile_id, r_anonpay_id = anonpay_id,
                   r_status = status, r_status_url = status_url, r_checkout_url = checkout_url,
                   r_webhook_url = webhook_url, r_expires_at = expires_at, r_created_at = now,
                   r_last_status_check = Some now, r_last_status = Some status,
                   r_last_payload = Some payload\<rparr>;
            d' = d\<lparr>sessions := sessions d @ [row], next_session_id := next_session_id d + 1\<rparr>;
            matching = filter (\<lambda>r. r_guild_id r = guild_id \<and> r_user_id r = user_id
                                   \<and> r_anonpay_id r = anonpay_id) (sessions d')
        in (fold max (map r_id matching) (r_id row), w1\<lparr>db := d'\<rparr>))"

definition update_payment_session_status ::
  "env \<Rightarrow> world \<Rightarrow> int \<Rightarrow> string \<Rightarrow> pydict \<Rightarrow> world" where
  "update_payment_session_status env w session_id status payload =
     (case utc_now env w of (now, w1) \<Rightarrow>
        w1\<lparr>db := (db w1)\<lparr>sessions :=
          map (\<lambda>r. if r_id r = session_id
                    then r\<lparr>r_status := status, r_last_status := Some status,
                           r_last_status_check := Some now, r_last_payload := Some payload\<rparr>
                    else r) (sessions (db w1))\<rparr>\<rparr>)"

definition update_payment_session_status_check :: "env \<Rightarrow> world \<Rightarrow> int \<Rightarrow> world" where
  "update_payment_session_status_check env w session_id =
     (case utc_now env w of (now, w1) \<Rightarrow>
        w1\<lparr>db := (db w1)\<lparr>sessions :=
          map (\<lambda>r. if r_id r = session_id then r\<lparr>r_last_status_check := Some now\<rparr> else r)
            (sessions (db w1))\<rparr>\<rparr>)"

definition list_active_sessions :: "database \<Rightarrow> int \<Rightarrow> session_row list" where
  "list_active_sessions d cutoff = filter (\<lambda>r. r_expires_at r \<ge> cutoff) (sessions d)"

definition delete_payment_session :: "world \<Rightarrow> int \<Rightarrow> world" where
  "delete_payment_session w session_id =
     w\<lparr>db := (db w)\<lparr>sessions := filter (\<lambda>r. r_id r \<noteq> session_id) (sessions (db w))\<rparr>\<rparr>"

definition get_payment_profile_by_id :: "database \<Rightarrow> int \<Rightarrow> profile option" where
  "get_payment_profile_by_id d profile_id = find (\<lambda>p. p_id p = profile_id) (profiles d)"

text \<open>
  \<open>upsert_subscription\<close>: one row per guild, user and profile; a conflict overwrites role,
  expiry and webhook of the row that is there and clears its notification mark.
\<close>

definition same_subscription :: "int \<Rightarrow> int \<Rightarrow> int \<Rightarrow> subscription_row \<Rightarrow> bool" where
  "same_subscription guild_id user_id payment_profile_id r \<longleftrightarrow>
     sub_guild_id r = guild_id \<and> sub_user_id r = user_id
     \<and> sub_payment_profile_id r = payment_profile_id"

definition db_upsert_subscription ::
  "env \<Rightarrow> world \<Rightarrow> int \<Rightarrow> int \<Rightarrow> int \<Rightarrow> int option \<Rightarrow> int \<Rightarrow> json \<Rightarrow> world" where
  "db_upsert_subscription env w guild_id user_id payment_profile_id role_id expires_at webhook_url =
     (case utc_now env w of (now, w1) \<Rightarrow>
        let d = db w1 in
        if list_ex (same_subscription guild_id user_id payment_profile_id) (subscriptions d)
        then w1\<lparr>db := d\<lparr>subscriptions :=
               map (\<lambda>r. if same_subscription guild_id user_id payment_profile_id r
                         then r\<lparr>sub_role_id := role_id, sub_expires_at := expires_at,
                                sub_webhook_url := webhook_url, sub_last_notified_at := None\<rparr>
                         else r) (subscriptions d)\<rparr>\<rparr>
        else w1\<lparr>db := d\<lparr>subscriptions := subscriptions d @
               [\<lparr>sub_id = next_subscription_id d, sub_guild_id = guild_id, sub_user_id = user_id,
                 sub_payment_profile_id = payment_profile_id, sub_role_id = role_id,
                 sub_expires_at = expires_at, sub_created_at = now,
                 sub_last_notified_at = None, sub_webhook_url = webhook_url\<rparr>],
               next_subscription_id := next_subscription_id d + 1\<rparr>\<rparr>)"

text \<open>
  \<open>list_expiring_subscriptions\<close>: expiry \<open>BETWEEN\<close> the reference time and
  \<open>advance_notice\<close> days later, and never notified or notified more than a minute before.
\<close>

definition list_expiring_subscriptions :: "database \<Rightarrow> int \<Rightarrow> int \<Rightarrow> subscription_row list" where
  "list_expiring_subscriptions d reference_time advance_notice =
     filter (\<lambda>r. reference_time \<le> sub_expires_at r
                 \<and> sub_expires_at r \<le> reference_time + days advance_notice
                 \<and> (case sub_last_notified_at r of
                        None \<Rightarrow> True
                      | Some t \<Rightarrow> t < reference_time - minutes 1))
       (subscriptions d)"

definition mark_subscription_notified :: "env \<Rightarrow> world \<Rightarrow> int \<Rightarrow> world" where
  "mark_subscription_notified env w subscription_id =
     (case utc_now env w of (now, w1) \<Rightarrow>
        w1\<lparr>db := (db w1)\<lparr>subscriptions :=
          map (\<lambda>r. if sub_id r = subscription_id then r\<lparr>sub_last_notified_at := Some now\<rparr> else r)
            (subscriptions (db w1))\<rparr>\<rparr>)"

definition list_expired_subscriptions :: "database \<Rightarrow> int \<Rightarrow> subscription_row list" where
  "list_expired_subscriptions d reference_time =
     filter (\<lambda>r. sub_expires_at r \<le> reference_time) (subscriptions d)"

definition delete_subscription :: "world \<Rightarrow> int \<Rightarrow> world" where
  "delete_subscription w subscription_id =
     w\<lparr>db := (db w)\<lparr>subscriptions :=
       filter (\<lambda>r. sub_id r \<noteq> subscription_id) (subscriptions (db w))\<rparr>\<rparr>"

section \<open>The payment manager (services.py)\<close>

text \<open>
  The loop of \<open>start_payment_session\<close> over the profile's parameters: the two bookkeeping
  keys and \<open>None\<close> values are skipped, a \<open>bool\<close> is sent as lower-case text, and every
  other entry is written into the request under its own key.
\<close>

fun merge_parameters :: "pydict \<Rightarrow> pydict \<Rightarrow> pydict" where
  "merge_parameters [] params = params"
| "merge_parameters ((key, v) # rest) params =
     (if key = ''discord_role_id'' \<or> key = ''duration_days'' then merge_parameters rest params
      else if v = JNull then merge_parameters rest params
      else merge_parameters rest
             (dict_set params key (case v of JBool b \<Rightarrow> JStr (lower (py_str v)) | _ \<Rightarrow> v)))"

definition build_params :: "guild_settings \<Rightarrow> profile \<Rightarrow> pydict" where
  "build_params gs p =
     merge_parameters (p_parameters p)
       [(''direct'', JStr ''false''),
        (''address'', JStr (payout_address gs)),
        (''ticker_to'', JStr (ticker_to gs)),
        (''network_to'', JStr (network_to gs))]"

definition start_payment_session ::
  "env \<Rightarrow> world \<Rightarrow> int \<Rightarrow> int \<Rightarrow> profile \<Rightarrow> guild_settings
     \<Rightarrow> (error + payment_session \<times> pydict) \<times> world" where
  "start_payment_session env w guild_id user_id p gs =
     (let params = build_params gs p;
          w0 = emit (CreateCheckout params) w
      in case create_checkout env params of
           Inl msg \<Rightarrow> (Inl (AnonpayError msg), w0)
         | Inr response \<Rightarrow>
             let anonpay_id = py_str (dict_get response ''id'') in
             if anonpay_id = [] then (Inl (AnonpayError ''AnonPay response missing identifier.''), w0)
             else
               let status_url = dict_get response ''status_url'';
                   url = dict_get response ''url''
               in if \<not> truthy status_url \<or> \<not> truthy url
                  then (Inl (AnonpayError ''AnonPay response missing required URLs.''), w0)
                  else
                    (case utc_now env w0 of (now, w1) \<Rightarrow>
                       let expires_at = now + minutes (session_ttl_minutes env);
                           webhook_url = dict_get (p_parameters p) ''webhook'';
                           status = py_str (dict_get_default response ''status'' (JStr ''waiting''))
                       in case create_payment_session env w1 guild_id user_id (p_id p) anonpay_id
                                 status status_url url webhook_url expires_at response of
                            (session_id, w2) \<Rightarrow>
                              (Inr (\<lparr>s_id = session_id, s_guild_id = guild_id, s_user_id = user_id,
                                     s_profile_id = p_id p, s_anonpay_id = anonpay_id,
                                     s_status = status, s_status_url = status_url,
                                     s_checkout_url = url, s_webhook_url = webhook_url,
                                     s_expires_at = expires_at, s_last_payload = Some response\<rparr>,
                                    response), w2)))"

text \<open>The \<open>PaymentSession\<close> that \<open>load_active_sessions\<close> builds from a row.\<close>

definition session_of_row :: "session_row \<Rightarrow> payment_session" where
  "session_of_row row =
     \<lparr>s_id = r_id row, s_guild_id = r_guild_id row, s_user_id = r_user_id row,
      s_profile_id = r_payment_profile_id row, s_anonpay_id = r_anonpay_id row,
      s_status = r_status row, s_status_url = r_status_url row,
      s_checkout_url = r_checkout_url row, s_webhook_url = r_webhook_url row,
      s_expires_at = r_expires_at row, s_last_payload = r_last_payload row\<rparr>"

definition load_active_sessions :: "env \<Rightarrow> world \<Rightarrow> payment_session list \<times> world" where
  "load_active_sessions env w =
     (case utc_now env w of (now, w1) \<Rightarrow>
        let cutoff = now - minutes (session_ttl_minutes env * 2)
        in (map session_of_row (list_active_sessions (db w1) cutoff), w1))"

text \<open>
  \<open>refresh_session_status\<close>: the status call is made first; when it fails nothing else
  happens, otherwise the lower-cased status and the payload are written to the row and to
  the session object.
\<close>

definition refresh_session_status ::
  "env \<Rightarrow> world \<Rightarrow> payment_session \<Rightarrow> (error + pydict \<times> payment_session) \<times> world" where
  "refresh_session_status env w s =
     (let w0 = emit (FetchStatus (s_id s) (s_status_url s)) w
      in case fetch_status env (s_status_url s) of
           Inl msg \<Rightarrow> (Inl (AnonpayError msg), w0)
         | Inr payload \<Rightarrow>
             let status = lower (py_str (dict_get_default payload ''status'' (JStr (s_status s))));
                 w1 = update_payment_session_status env w0 (s_id s) status payload
             in (Inr (payload, s\<lparr>s_status := status, s_last_payload := Some payload\<rparr>), w1))"

definition purge_session :: "world \<Rightarrow> int \<Rightarrow> world" where
  "purge_session w session_id = delete_payment_session w session_id"

definition truthy_int :: "int option \<Rightarrow> bool" where
  "truthy_int v = (case v of None \<Rightarrow> False | Some i \<Rightarrow> i \<noteq> 0)"

definition upsert_subscription ::
  "env \<Rightarrow> world \<Rightarrow> payment_session \<Rightarrow> profile \<Rightarrow> json \<Rightarrow> (error + int) \<times> world" where
  "upsert_subscription env w s p webhook_url =
     (case p_duration_days p of
        None \<Rightarrow> (Inl (RuntimeError ''Cannot create subscription without a configured duration.''), w)
      | Some duration_days \<Rightarrow>
          if duration_days = 0
          then (Inl (RuntimeError ''Cannot create subscription without a configured duration.''), w)
          else
            (case utc_now env w of (now, w1) \<Rightarrow>
               let expires_at = now + days duration_days
               in (Inr expires_at,
                   db_upsert_subscription env w1 (s_guild_id s) (s_user_id s) (s_profile_id s)
                     (p_role_id p) expires_at webhook_url)))"

section \<open>The bot (bot.py)\<close>

definition post_webhook :: "world \<Rightarrow> json \<Rightarrow> pydict \<Rightarrow> world" where
  "post_webhook w url payload = emit (PostWebhook url payload) w"

definition get_role :: "guild \<Rightarrow> int \<Rightarrow> int option" where
  "get_role g role_id = (if role_id \<in> set (guild_roles g) then Some role_id else None)"

definition get_member :: "guild \<Rightarrow> int \<Rightarrow> int option" where
  "get_member g user_id = (if user_id \<in> set (guild_members g) then Some user_id else None)"

text \<open>
  \<open>_notify_user\<close>: the user is looked up in the cache and then fetched; when neither finds
  the user the call returns, otherwise the embed is built (which reads the clock) and sent.
\<close>

definition notify_user :: "env \<Rightarrow> world \<Rightarrow> payment_session \<Rightarrow> string \<Rightarrow> string \<Rightarrow> world" where
  "notify_user env w s message title =
     (if \<not> resolve_user env (s_user_id s)
      then emit (NotifyUser (s_user_id s) title message False) w
      else case utc_now env w of (now, w1) \<Rightarrow>
             emit (NotifyUser (s_user_id s) title message True) w1)"

definition handle_successful_payment ::
  "env \<Rightarrow> world \<Rightarrow> payment_session \<Rightarrow> guild option \<Rightarrow> profile option \<Rightarrow> pydict
     \<Rightarrow> error option \<times> world" where
  "handle_successful_payment env w s guild_opt profile_opt payload =
     (case guild_opt of
        None \<Rightarrow> (None, w)
      | Some g \<Rightarrow>
         (case profile_opt of
            None \<Rightarrow> (None, w)
          | Some p \<Rightarrow>
             let role = (case p_role_id p of
                           None \<Rightarrow> None
                         | Some role_id \<Rightarrow> if role_id \<noteq> 0 then get_role g role_id else None);
                 member = get_member g (s_user_id s);
                 w1 = (case (role, member) of
                         (Some r, Some m) \<Rightarrow> emit (AddRoles (s_guild_id s) m r) w
                       | _ \<Rightarrow> w);
                 webhook_url = py_or (s_webhook_url s) (dict_get (p_parameters p) ''webhook'')
             in case (if truthy_int (p_duration_days p)
                      then upsert_subscription env w1 s p webhook_url
                      else (Inr 0, w1)) of
                  (Inl e, w2) \<Rightarrow> (Some e, w2)
                | (Inr _, w2) \<Rightarrow>
                    if truthy webhook_url
                    then (None, post_webhook w2 webhook_url
                            (dict_set (dict_set payload ''discord_id'' (JStr (str_int (s_user_id s))))
                               ''subscription_active'' (JBool True)))
                    else (None, w2)))"

definition handle_status_change ::
  "env \<Rightarrow> world \<Rightarrow> payment_session \<Rightarrow> string \<Rightarrow> pydict option \<Rightarrow> error option \<times> world" where
  "handle_status_change env w s status payload_opt =
     (let payload = (case payload_opt of None \<Rightarrow> [] | Some d \<Rightarrow> d);
          w1 = (if truthy (s_webhook_url s)
                then post_webhook w (s_webhook_url s)
                       (dict_set payload ''discord_id'' (JStr (str_int (s_user_id s))))
                else w);
          guild_opt = get_guild env (s_guild_id s);
          profile_opt = (case guild_opt of
                           None \<Rightarrow> None
                         | Some g \<Rightarrow> get_payment_profile_by_id (db w1) (s_profile_id s))
      in if status = ''finished''
         then handle_successful_payment env w1 s guild_opt profile_opt payload
         else if status = ''paid partially''
         then (None, notify_user env w1 s
                 ''Payment received partially. Contact support to resolve the difference.''
                 ''Partial Payment'')
         else if status \<in> {''failed'', ''expired'', ''halted'', ''refunded''}
         then (None, notify_user env w1 s (''Payment status updated: **'' @ status @ ''**.'')
                 ''Payment Update'')
         else (None, w1))"

text \<open>The body of the loop of \<open>_process_payment_updates\<close>, for one loaded session.\<close>

definition process_session :: "env \<Rightarrow> world \<Rightarrow> payment_session \<Rightarrow> error option \<times> world" where
  "process_session env w s =
     (let previous_status = s_status s in
      case utc_now env w of (now, w1) \<Rightarrow>
        if s_expires_at s < now \<and> previous_status \<notin> FINAL_STATUSES
        then (None, notify_user env (purge_session w1 (s_id s)) s
                ''Payment session expired before completion.'' ''Payment Expired'')
        else
          (case refresh_session_status env w1 s of
             (Inl (AnonpayError msg), w2) \<Rightarrow> (None, w2)
           | (Inl e, w2) \<Rightarrow> (Some e, w2)
           | (Inr (payload, s'), w2) \<Rightarrow>
               let status = lower (s_status s')
               in case (if status \<noteq> previous_status
                        then handle_status_change env w2 s' status (Some payload)
                        else (None, w2)) of
                    (Some e, w3) \<Rightarrow> (Some e, w3)
                  | (None, w3) \<Rightarrow>
                      if status \<in> FINAL_STATUSES then (None, purge_session w3 (s_id s'))
                      else (None, w3)))"

fun process_sessions :: "env \<Rightarrow> world \<Rightarrow> payment_session list \<Rightarrow> error option \<times> world" where
  "process_sessions env w [] = (None, w)"
| "process_sessions env w (s # rest) =
     (case process_session env w s of
        (Some e, w') \<Rightarrow> (Some e, w')
      | (None, w') \<Rightarrow> process_sessions env w' rest)"

definition process_payment_updates :: "env \<Rightarrow> world \<Rightarrow> error option \<times> world" where
  "process_payment_updates env w =
     (case load_active_sessions env w of (loaded, w1) \<Rightarrow> process_sessions env w1 loaded)"

definition notify_subscription_expiring :: "env \<Rightarrow> world \<Rightarrow> subscription_row \<Rightarrow> world" where
  "notify_subscription_expiring env w sub =
     (case get_guild env (sub_guild_id sub) of
        None \<Rightarrow> w
      | Some g \<Rightarrow>
          let payment_name = (case get_payment_profile_by_id (db w) (sub_payment_profile_id sub) of
                                Some p \<Rightarrow> p_name p
                              | None \<Rightarrow> ''unknown'')
          in if truthy (sub_webhook_url sub)
             then post_webhook w (sub_webhook_url sub)
                    [(''event'', JStr ''subscription_expiring''),
                     (''discord_id'', JStr (str_int (sub_user_id sub))),
                     (''guild_id'', JStr (str_int (sub_guild_id sub))),
                     (''payment_name'', JStr payment_name),
                     (''guild_name'', JStr (guild_name g)),
                     (''expires_at'', JStr (isoformat env (sub_expires_at sub)))]
             else w)"

definition expire_subscription :: "env \<Rightarrow> world \<Rightarrow> subscription_row \<Rightarrow> world" where
  "expire_subscription env w sub =
     (case get_guild env (sub_guild_id sub) of
        None \<Rightarrow> w
      | Some g \<Rightarrow>
          let payment_name = (case get_payment_profile_by_id (db w) (sub_payment_profile_id sub) of
                                Some p \<Rightarrow> p_name p
                              | None \<Rightarrow> ''unknown'');
              role = (case sub_role_id sub of
                        None \<Rightarrow> None
                      | Some role_id \<Rightarrow> if role_id \<noteq> 0 then get_role g role_id else None);
              member = get_member g (sub_user_id sub);
              w1 = (case (member, role) of
                      (Some m, Some r) \<Rightarrow> emit (RemoveRoles (sub_guild_id sub) m r) w
                    | _ \<Rightarrow> w)
          in if truthy (sub_webhook_url sub)
             then post_webhook w1 (sub_webhook_url sub)
                    [(''event'', JStr ''subscription_expired''),
                     (''discord_id'', JStr (str_int (sub_user_id sub))),
                     (''guild_id'', JStr (str_int (sub_guild_id sub))),
                     (''payment_name'', JStr payment_name),
                     (''guild_name'', JStr (guild_name g)),
                     (''expired_at'', JStr (isoformat env (sub_expires_at sub)))]
             else w1)"

text \<open>The two loops of \<open>_process_subscriptions\<close>.\<close>

fun notify_expiring :: "env \<Rightarrow> world \<Rightarrow> subscription_row list \<Rightarrow> world" where
  "notify_expiring env w [] = w"
| "notify_expiring env w (sub # rest) =
     (if sub_last_notified_at sub \<noteq> None then notify_expiring env w rest
      else notify_expiring env
             (mark_subscription_notified env (notify_subscription_expiring env w sub) (sub_id sub))
             rest)"

fun expire_all :: "env \<Rightarrow> world \<Rightarrow> subscription_row list \<Rightarrow> world" where
  "expire_all env w [] = w"
| "expire_all env w (sub # rest) =
     expire_all env (delete_subscription (expire_subscription env w sub) (sub_id sub)) rest"

definition process_subscriptions :: "env \<Rightarrow> world \<Rightarrow> world" where
  "process_subscriptions env w =
     (case utc_now env w of (now, w1) \<Rightarrow>
        let expiring = list_expiring_subscriptions (db w1) now 1;
            w2 = notify_expiring env w1 expiring;
            expired = list_expired_subscriptions (db w2) now
        in expire_all env w2 expired)"

section \<open>Traces\<close>

text \<open>
  \<open>appended w w' Q\<close>: the trace of \<open>w'\<close> is the trace of \<open>w\<close> followed by effects that
  all satisfy \<open>Q\<close>.
\<close>

definition appended :: "world \<Rightarrow> world \<Rightarrow> (effect \<Rightarrow> bool) \<Rightarrow> bool" where
  "appended w w' Q \<longleftrightarrow> (\<exists>new. effects w' = effects w @ new \<and> (\<forall>e \<in> set new. Q e))"

text \<open>
  The status a poll of session \<open>s\<close> yields, lower-cased as \<open>refresh_session_status\<close>
  does; \<open>None\<close> when the status call fails.
\<close>

definition fetched_status :: "env \<Rightarrow> payment_session \<Rightarrow> string option" where
  "fetched_status env s =
     (case fetch_status env (s_status_url s) of
        Inl msg \<Rightarrow> None
      | Inr payload \<Rightarrow>
          Some (lower (py_str (dict_get_default payload ''status'' (JStr (s_status s))))))"

text \<open>
  \<open>session_effect env s\<close>: what the loop body may do to the outside world for session \<open>s\<close>;
  a role grant only when the fetched status is \<open>finished\<close>. \<open>session_step\<close> and
  \<open>pass_step\<close> collect what one loop iteration and a run of iterations leave in place.
\<close>

definition session_effect :: "env \<Rightarrow> payment_session \<Rightarrow> effect \<Rightarrow> bool" where
  "session_effect env s e =
     (case e of
        FetchStatus i url \<Rightarrow> i = s_id s \<and> url = s_status_url s
      | AddRoles g u r \<Rightarrow>
          g = s_guild_id s \<and> u = s_user_id s \<and> fetched_status env s = Some ''finished''
      | NotifyUser u t m b \<Rightarrow> u = s_user_id s
      | PostWebhook url pl \<Rightarrow> True
      | _ \<Rightarrow> False)"

definition session_step :: "env \<Rightarrow> payment_session \<Rightarrow> world \<Rightarrow> world \<Rightarrow> bool" where
  "session_step env s w w' \<longleftrightarrow>
     tick w \<le> tick w'
     \<and> profiles (db w') = profiles (db w)
     \<and> (\<forall>r \<in> set (sessions (db w)). r_id r \<noteq> s_id s \<longrightarrow> r \<in> set (sessions (db w')))
     \<and> r_id ` set (sessions (db w')) \<subseteq> r_id ` set (sessions (db w))
     \<and> (distinct (map r_id (sessions (db w))) \<longrightarrow> distinct (map r_id (sessions (db w'))))
     \<and> appended w w' (session_effect env s)
     \<and> (\<forall>row \<in> set (subscriptions (db w')).
           row \<in> set (subscriptions (db w))
           \<or> (same_subscription (s_guild_id s) (s_user_id s) (s_profile_id s) row
               \<and> fetched_status env s = Some ''finished''))
     \<and> (fetched_status env s \<noteq> Some ''finished''
          \<longrightarrow> subscriptions (db w') = subscriptions (db w))"

definition pass_step :: "env \<Rightarrow> payment_session list \<Rightarrow> world \<Rightarrow> world \<Rightarrow> bool" where
  "pass_step env ss w w' \<longleftrightarrow>
     tick w \<le> tick w'
     \<and> profiles (db w') = profiles (db w)
     \<and> (\<forall>r \<in> set (sessions (db w)). r_id r \<notin> s_id ` set ss \<longrightarrow> r \<in> set (sessions (db w')))
     \<and> r_id ` set (sessions (db w')) \<subseteq> r_id ` set (sessions (db w))
     \<and> (distinct (map r_id (sessions (db w))) \<longrightarrow> distinct (map r_id (sessions (db w'))))
     \<and> appended w w' (\<lambda>e. \<exists>s \<in> set ss. session_effect env s e)
     \<and> (\<forall>row \<in> set (subscriptions (db w')).
           row \<in> set (subscriptions (db w))
           \<or> (\<exists>s \<in> set ss. same_subscription (s_guild_id s) (s_user_id s) (s_profile_id s) row
                  \<and> fetched_status env s = Some ''finished''))
     \<and> ((\<forall>s \<in> set ss. fetched_status env s \<noteq> Some ''finished'')
          \<longrightarrow> subscriptions (db w') = subscriptions (db w))"

section \<open>Example data\<close>

definition demo_settings :: guild_settings where
  "demo_settings = \<lparr>gs_guild_id = 1, payout_address = ''bc1qpayout'', ticker_to = ''BTC'',
                     network_to = ''MAINNET''\<rparr>"

definition demo_profile :: profile where
  "demo_profile =
     \<lparr>p_id = 7, p_guild_id = 1, p_name = ''vip'', p_role_id = Some 5, p_duration_days = Some 30,
      p_parameters = [(''amount'', JStr ''0.5''), (''donation'', JBool False),
                      (''webhook'', JStr ''https://hook.example/cb''),
                      (''discord_role_id'', JInt 5), (''duration_days'', JInt 30)],
      p_donation_mode = False\<rparr>"

definition profile_with_address :: profile where
  "profile_with_address = demo_profile\<lparr>p_parameters := [(''address'', JStr ''bc1qother'')]\<rparr>"

definition demo_guild :: guild where
  "demo_guild = \<lparr>guild_name = ''Cats'', guild_roles = [5], guild_members = [42]\<rparr>"

definition demo_env :: env where
  "demo_env =
     \<lparr>clock = (\<lambda>k. 1000 + int k), isoformat = str_int, session_ttl_minutes = 20,
      create_checkout = (\<lambda>params. Inl ''Network error while creating AnonPay checkout.''),
      fetch_status = (\<lambda>url. Inl ''Network error while fetching AnonPay status.''),
      get_guild = (\<lambda>g. if g = 1 then Some demo_guild else None),
      resolve_user = (\<lambda>u. u = 42)\<rparr>"

definition demo_world :: world where
  "demo_world =
     \<lparr>db = \<lparr>profiles = [demo_profile], sessions = [], subscriptions = [],
             next_session_id = 1, next_subscription_id = 1\<rparr>,
      effects = [], tick = 0\<rparr>"

definition response_ok :: pydict where
  "response_ok = [(''id'', JStr ''ap1''), (''status'', JStr ''Waiting''),
                  (''status_url'', JStr ''https://trocador.app/anonpay/status/ap1''),
                  (''url'', JStr ''https://trocador.app/anonpay/ap1'')]"

definition response_no_checkout_url :: pydict where
  "response_no_checkout_url = [(''id'', JStr ''ap1''), (''status'', JStr ''waiting''),
                  (''status_url'', JStr ''https://trocador.app/anonpay/status/ap1'')]"

definition response_no_id :: pydict where
  "response_no_id = [(''status'', JStr ''waiting''),
                  (''status_url'', JStr ''https://trocador.app/anonpay/status/ap1''),
                  (''url'', JStr ''https://trocador.app/anonpay/ap1'')]"

definition env_ok :: env where
  "env_ok = demo_env\<lparr>create_checkout := (\<lambda>params. Inr response_ok)\<rparr>"

definition env_no_checkout_url :: env where
  "env_no_checkout_url = demo_env\<lparr>create_checkout := (\<lambda>params. Inr response_no_checkout_url)\<rparr>"

definition env_no_id :: env where
  "env_no_id = demo_env\<lparr>create_checkout := (\<lambda>params. Inr response_no_id)\<rparr>"

section \<open>Python values: basic facts\<close>

lemma map_of_dict_set: "map_of (dict_set d k v) = (map_of d)(k \<mapsto> v)"
  by (induction d) (auto simp: fun_eq_iff)

lemma digits_nonempty: "digits n \<noteq> []"
  by (subst digits.simps) simp

lemma str_int_nonempty: "str_int i \<noteq> []"
  by (simp add: str_int_def digits_nonempty)

lemma py_str_empty_iff: "py_str v = [] \<longleftrightarrow> v = JStr []"
  by (cases v) (simp_all add: py_str_def str_int_nonempty)

lemma fold_max_bound: "\<forall>x \<in> set xs. x \<le> (a::int) \<Longrightarrow> fold max xs a = a"
  by (induction xs) (simp_all add: max_def)

section \<open>Creating a payment session\<close>

lemma merge_parameters_untouched:
  "\<forall>v. (k, v) \<in> set ps \<longrightarrow> v = JNull \<Longrightarrow> map_of (merge_parameters ps params) k = map_of params k"
proof (induction ps arbitrary: params)
  case Nil
  then show ?case by simp
next
  case (Cons a ps)
  obtain key v where a: "a = (key, v)" by (cases a)
  from Cons.prems have rest: "\<forall>v. (k, v) \<in> set ps \<longrightarrow> v = JNull" by simp
  show ?case
  proof (cases "key = k")
    case True
    with Cons.prems a have "v = JNull" by simp
    with a Cons.IH [OF rest] show ?thesis by simp
  next
    case False
    with a Cons.IH [OF rest] show ?thesis by (simp add: map_of_dict_set)
  qed
qed

lemma merge_parameters_override:
  "distinct (map fst ps) \<Longrightarrow> (k, v) \<in> set ps \<Longrightarrow> v \<noteq> JNull \<Longrightarrow> k \<noteq> ''discord_role_id''
   \<Longrightarrow> k \<noteq> ''duration_days''
   \<Longrightarrow> map_of (merge_parameters ps params) k
       = Some (case v of JBool b \<Rightarrow> JStr (lower (py_str v)) | _ \<Rightarrow> v)"
proof (induction ps arbitrary: params)
  case Nil
  then show ?case by simp
next
  case (Cons a ps)
  obtain key u where a: "a = (key, u)" by (cases a)
  show ?case
  proof (cases "(k, v) \<in> set ps")
    case True
    with Cons.prems have "distinct (map fst ps)" by simp
    from Cons.IH [OF this True Cons.prems(3,4,5)] a show ?thesis by simp
  next
    case False
    with Cons.prems a have eq: "key = k" "u = v" by auto
    from Cons.prems a eq have "k \<notin> fst ` set ps" by simp
    then have "\<forall>x. (k, x) \<in> set ps \<longrightarrow> x = JNull" by force
    from merge_parameters_untouched [OF this] a eq Cons.prems(3,4,5)
    show ?thesis by (simp add: map_of_dict_set)
  qed
qed

text \<open>
  C4, as the code has it. The request carries the guild's payout address, coin and network
  under \<open>address\<close>, \<open>ticker_to\<close> and \<open>network_to\<close> whenever the profile's parameters have
  no entry other than \<open>None\<close> under that key. An entry of the profile that is not \<open>None\<close>
  and not one of the two bookkeeping keys is written into the request under its own key,
  over whatever the guild settings or the defaults put there: the profile's parameters come
  last in the merge.
\<close>

theorem build_params_precedence:
  "((\<forall>v. (''address'', v) \<in> set (p_parameters p) \<longrightarrow> v = JNull)
      \<longrightarrow> map_of (build_params gs p) ''address'' = Some (JStr (payout_address gs)))
   \<and> ((\<forall>v. (''ticker_to'', v) \<in> set (p_parameters p) \<longrightarrow> v = JNull)
      \<longrightarrow> map_of (build_params gs p) ''ticker_to'' = Some (JStr (ticker_to gs)))
   \<and> ((\<forall>v. (''network_to'', v) \<in> set (p_parameters p) \<longrightarrow> v = JNull)
      \<longrightarrow> map_of (build_params gs p) ''network_to'' = Some (JStr (network_to gs)))
   \<and> (distinct (map fst (p_parameters p)) \<and> (k, v) \<in> set (p_parameters p) \<and> v \<noteq> JNull
        \<and> k \<noteq> ''discord_role_id'' \<and> k \<noteq> ''duration_days''
      \<longrightarrow> map_of (build_params gs p) k
            = Some (case v of JBool b \<Rightarrow> JStr (lower (py_str v)) | _ \<Rightarrow> v))"
  unfolding build_params_def
  by (intro conjI impI) (simp_all add: merge_parameters_untouched merge_parameters_override)

theorem build_params_precedence_witness:
  "map_of (build_params demo_settings demo_profile) ''address'' = Some (JStr ''bc1qpayout'')
   \<and> map_of (build_params demo_settings demo_profile) ''ticker_to'' = Some (JStr ''BTC'')
   \<and> map_of (build_params demo_settings demo_profile) ''network_to'' = Some (JStr ''MAINNET'')
   \<and> map_of (build_params demo_settings demo_profile) ''donation'' = Some (JStr ''false'')"
proof -
  have a: "\<forall>v. (''address'', v) \<in> set (p_parameters demo_profile) \<longrightarrow> v = JNull"
    and t: "\<forall>v. (''ticker_to'', v) \<in> set (p_parameters demo_profile) \<longrightarrow> v = JNull"
    and n: "\<forall>v. (''network_to'', v) \<in> set (p_parameters demo_profile) \<longrightarrow> v = JNull"
    and d: "distinct (map fst (p_parameters demo_profile))
            \<and> (''donation'', JBool False) \<in> set (p_parameters demo_profile)
            \<and> JBool False \<noteq> JNull
            \<and> ''donation'' \<noteq> ''discord_role_id'' \<and> ''donation'' \<noteq> ''duration_days''"
    by (simp_all add: demo_profile_def)
  from a t n d
    build_params_precedence [of demo_profile demo_settings "''donation''" "JBool False"]
  show ?thesis
    by (simp add: demo_settings_def py_str_def lower_def lower_char_def)
qed

text \<open>
  C4 as stated fails: a profile whose parameters hold an \<open>address\<close> sends that address,
  not the guild's payout address.
\<close>

theorem build_params_address_counterexample:
  "map_of (build_params demo_settings profile_with_address) ''address'' = Some (JStr ''bc1qother'')
   \<and> payout_address demo_settings = ''bc1qpayout''"
  by (simp add: build_params_def profile_with_address_def demo_profile_def demo_settings_def)

text \<open>
  C7. When \<open>start_payment_session\<close> fails, whatever the reason, the store is the one it
  started from: no session row was written.
\<close>

theorem start_payment_session_failure_leaves_store:
  "fst (start_payment_session env w guild_id user_id p gs) = Inl e
   \<Longrightarrow> db (snd (start_payment_session env w guild_id user_id p gs)) = db w"
  by (auto simp: start_payment_session_def emit_def Let_def split: sum.splits if_splits prod.splits)

theorem start_payment_session_failure_leaves_store_witness:
  "fst (start_payment_session env_no_checkout_url demo_world 1 42 demo_profile demo_settings)
     = Inl (AnonpayError ''AnonPay response missing required URLs.'')
   \<and> db (snd (start_payment_session env_no_checkout_url demo_world 1 42 demo_profile demo_settings))
     = db demo_world"
proof -
  have h: "fst (start_payment_session env_no_checkout_url demo_world 1 42 demo_profile demo_settings)
     = Inl (AnonpayError ''AnonPay response missing required URLs.'')"
    by (simp add: start_payment_session_def env_no_checkout_url_def demo_env_def
          response_no_checkout_url_def dict_get_def py_str_def Let_def)
  from h start_payment_session_failure_leaves_store [OF h] show ?thesis by simp
qed

text \<open>
  C1, as the code has it. \<open>start_payment_session\<close> raises \<open>AnonpayError\<close> when the
  create-checkout call fails, when the reference id of the response is the empty string, and
  when the status-check URL or the checkout URL is missing or empty: one missing URL is
  enough. For a response with an id (not \<open>None\<close>, not empty) and both URLs it appends one
  row to the session table and returns the session of that row. What happens when the
  response has no id at all is not part of this statement.
\<close>

theorem start_payment_session_outcome:
  "(create_checkout env (build_params gs p) = Inl msg
      \<longrightarrow> fst (start_payment_session env w guild_id user_id p gs) = Inl (AnonpayError msg))
   \<and> (create_checkout env (build_params gs p) = Inr response
        \<and> (dict_get response ''id'' = JStr [] \<or> \<not> truthy (dict_get response ''status_url'')
             \<or> \<not> truthy (dict_get response ''url''))
      \<longrightarrow> (\<exists>m. fst (start_payment_session env w guild_id user_id p gs) = Inl (AnonpayError m)))
   \<and> (create_checkout env (build_params gs p) = Inr response
        \<and> dict_get response ''id'' \<noteq> JNull \<and> dict_get response ''id'' \<noteq> JStr []
        \<and> truthy (dict_get response ''status_url'') \<and> truthy (dict_get response ''url'')
      \<longrightarrow> (\<exists>sess row.
             fst (start_payment_session env w guild_id user_id p gs) = Inr (sess, response)
             \<and> sessions (db (snd (start_payment_session env w guild_id user_id p gs)))
                 = sessions (db w) @ [row]
             \<and> r_id row = next_session_id (db w)
             \<and> session_of_row row = sess\<lparr>s_id := r_id row\<rparr>
             \<and> ((\<forall>r \<in> set (sessions (db w)). r_id r < next_session_id (db w))
                  \<longrightarrow> s_id sess = r_id row)
             \<and> s_guild_id sess = guild_id \<and> s_user_id sess = user_id \<and> s_profile_id sess = p_id p
             \<and> s_anonpay_id sess = py_str (dict_get response ''id'')
             \<and> s_status_url sess = dict_get response ''status_url''
             \<and> s_checkout_url sess = dict_get response ''url''))"
proof (intro conjI impI)
  assume "create_checkout env (build_params gs p) = Inl msg"
  then show "fst (start_payment_session env w guild_id user_id p gs) = Inl (AnonpayError msg)"
    by (simp add: start_payment_session_def Let_def)
next
  assume "create_checkout env (build_params gs p) = Inr response
        \<and> (dict_get response ''id'' = JStr [] \<or> \<not> truthy (dict_get response ''status_url'')
             \<or> \<not> truthy (dict_get response ''url''))"
  then show "\<exists>m. fst (start_payment_session env w guild_id user_id p gs) = Inl (AnonpayError m)"
    by (auto simp: start_payment_session_def Let_def py_str_def)
next
  assume a: "create_checkout env (build_params gs p) = Inr response
        \<and> dict_get response ''id'' \<noteq> JNull \<and> dict_get response ''id'' \<noteq> JStr []
        \<and> truthy (dict_get response ''status_url'') \<and> truthy (dict_get response ''url'')"
  then have ne: "py_str (dict_get response ''id'') \<noteq> []"
    by (simp add: py_str_empty_iff)
  have mx: "(\<forall>r \<in> set (sessions (db w)). r_id r < next_session_id (db w)) \<Longrightarrow>
     fold max (map r_id (filter P (sessions (db w)))) (next_session_id (db w))
       = next_session_id (db w)" for P
    by (rule fold_max_bound) auto
  from a ne show "\<exists>sess row.
             fst (start_payment_session env w guild_id user_id p gs) = Inr (sess, response)
             \<and> sessions (db (snd (start_payment_session env w guild_id user_id p gs)))
                 = sessions (db w) @ [row]
             \<and> r_id row = next_session_id (db w)
             \<and> session_of_row row = sess\<lparr>s_id := r_id row\<rparr>
             \<and> ((\<forall>r \<in> set (sessions (db w)). r_id r < next_session_id (db w))
                  \<longrightarrow> s_id sess = r_id row)
             \<and> s_guild_id sess = guild_id \<and> s_user_id sess = user_id \<and> s_profile_id sess = p_id p
             \<and> s_anonpay_id sess = py_str (dict_get response ''id'')
             \<and> s_status_url sess = dict_get response ''status_url''
             \<and> s_checkout_url sess = dict_get response ''url''"
    by (simp add: start_payment_session_def create_payment_session_def utc_now_def emit_def
          Let_def session_of_row_def mx max_def)
qed

lemmas start_eval = start_payment_session_def create_payment_session_def utc_now_def emit_def
  dict_get_def dict_get_default_def py_str_def minutes_def Let_def demo_env_def demo_world_def

text \<open>
  C1 as stated fails: a response that has an id and a status-check URL, and lacks only the
  checkout URL, is rejected with \<open>AnonpayError\<close>.
\<close>

theorem start_payment_session_one_url_counterexample:
  "create_checkout env_no_checkout_url (build_params demo_settings demo_profile)
     = Inr response_no_checkout_url
   \<and> dict_get response_no_checkout_url ''id'' = JStr ''ap1''
   \<and> dict_get response_no_checkout_url ''status_url''
       = JStr ''https://trocador.app/anonpay/status/ap1''
   \<and> fst (start_payment_session env_no_checkout_url demo_world 1 42 demo_profile demo_settings)
       = Inl (AnonpayError ''AnonPay response missing required URLs.'')"
  by (simp add: start_eval env_no_checkout_url_def response_no_checkout_url_def)

theorem start_payment_session_outcome_witness:
  "fst (start_payment_session demo_env demo_world 1 42 demo_profile demo_settings)
     = Inl (AnonpayError ''Network error while creating AnonPay checkout.'')
   \<and> (\<exists>m. fst (start_payment_session env_no_checkout_url demo_world 1 42 demo_profile demo_settings)
         = Inl (AnonpayError m))
   \<and> (\<exists>sess row.
         fst (start_payment_session env_ok demo_world 1 42 demo_profile demo_settings)
           = Inr (sess, response_ok)
         \<and> sessions (db (snd (start_payment_session env_ok demo_world 1 42 demo_profile
                                 demo_settings))) = [row]
         \<and> r_id row = 1 \<and> s_id sess = 1 \<and> s_anonpay_id sess = ''ap1'')"
proof -
  have a: "create_checkout demo_env (build_params demo_settings demo_profile)
             = Inl ''Network error while creating AnonPay checkout.''"
    by (simp add: demo_env_def)
  have b: "create_checkout env_no_checkout_url (build_params demo_settings demo_profile)
             = Inr response_no_checkout_url
           \<and> (dict_get response_no_checkout_url ''id'' = JStr []
               \<or> \<not> truthy (dict_get response_no_checkout_url ''status_url'')
               \<or> \<not> truthy (dict_get response_no_checkout_url ''url''))"
    by (simp add: env_no_checkout_url_def demo_env_def response_no_checkout_url_def dict_get_def)
  have c: "create_checkout env_ok (build_params demo_settings demo_profile) = Inr response_ok
           \<and> dict_get response_ok ''id'' \<noteq> JNull \<and> dict_get response_ok ''id'' \<noteq> JStr []
           \<and> truthy (dict_get response_ok ''status_url'') \<and> truthy (dict_get response_ok ''url'')"
    by (simp add: env_ok_def demo_env_def response_ok_def dict_get_def)
  have d: "sessions (db demo_world) = []" "next_session_id (db demo_world) = 1"
    "py_str (dict_get response_ok ''id'') = ''ap1''"
    by (simp_all add: demo_world_def response_ok_def dict_get_def py_str_def)
  from a start_payment_session_outcome
         [of demo_env demo_settings demo_profile _ demo_world 1 42]
  have 1: "fst (start_payment_session demo_env demo_world 1 42 demo_profile demo_settings)
     = Inl (AnonpayError ''Network error while creating AnonPay checkout.'')"
    by blast
  from b start_payment_session_outcome
         [of env_no_checkout_url demo_settings demo_profile _ demo_world 1 42
             response_no_checkout_url]
  have 2: "\<exists>m. fst (start_payment_session env_no_checkout_url demo_world 1 42 demo_profile
                       demo_settings) = Inl (AnonpayError m)"
    by blast
  from c start_payment_session_outcome
         [of env_ok demo_settings demo_profile _ demo_world 1 42 response_ok]
  have 3: "\<exists>sess row.
         fst (start_payment_session env_ok demo_world 1 42 demo_profile demo_settings)
           = Inr (sess, response_ok)
         \<and> sessions (db (snd (start_payment_session env_ok demo_world 1 42 demo_profile
                                 demo_settings))) = [row]
         \<and> r_id row = 1 \<and> s_id sess = 1 \<and> s_anonpay_id sess = ''ap1''"
    by (auto simp: d)
  from 1 2 3 show ?thesis by blast
qed

text \<open>A response without any id is taken: its id becomes the text None.\<close>

lemma start_payment_session_missing_id:
  "dict_get response_no_id ''id'' = JNull
   \<and> (\<exists>sess. fst (start_payment_session env_no_id demo_world 1 42 demo_profile demo_settings)
                = Inr (sess, response_no_id) \<and> s_anonpay_id sess = ''None'')"
  by (simp add: start_eval env_no_id_def response_no_id_def)

section \<open>Effects of the status handlers\<close>

lemma db_emit [simp]: "db (emit e w) = db w"
  and effects_emit [simp]: "effects (emit e w) = effects w @ [e]"
  and tick_emit [simp]: "tick (emit e w) = tick w"
  by (simp_all add: emit_def)

lemma utc_now_simps [simp]:
  "fst (utc_now env w) = clock env (tick w)"
  "db (snd (utc_now env w)) = db w"
  "effects (snd (utc_now env w)) = effects w"
  "tick (snd (utc_now env w)) = Suc (tick w)"
  by (simp_all add: utc_now_def)

lemma notify_user_simps [simp]:
  "db (notify_user env w s message title) = db w"
  "effects (notify_user env w s message title)
     = effects w @ [NotifyUser (s_user_id s) title message (resolve_user env (s_user_id s))]"
  "tick w \<le> tick (notify_user env w s message title)"
  by (simp_all add: notify_user_def utc_now_def split: prod.splits)

lemma post_webhook_simps [simp]:
  "db (post_webhook w url payload) = db w"
  "effects (post_webhook w url payload) = effects w @ [PostWebhook url payload]"
  "tick (post_webhook w url payload) = tick w"
  by (simp_all add: post_webhook_def)

lemma db_upsert_subscription_frame [simp]:
  "sessions (db (db_upsert_subscription env w g u p role e wh)) = sessions (db w)"
  "profiles (db (db_upsert_subscription env w g u p role e wh)) = profiles (db w)"
  "effects (db_upsert_subscription env w g u p role e wh) = effects w"
  "tick w \<le> tick (db_upsert_subscription env w g u p role e wh)"
  by (simp_all add: db_upsert_subscription_def utc_now_def Let_def)

lemma db_upsert_subscription_rows:
  "row \<in> set (subscriptions (db (db_upsert_subscription env w g u p role e wh)))
   \<Longrightarrow> row \<in> set (subscriptions (db w)) \<or> same_subscription g u p row"
  by (auto simp: db_upsert_subscription_def utc_now_def Let_def same_subscription_def
      split: if_splits)

lemma upsert_subscription_frame [simp]:
  "sessions (db (snd (upsert_subscription env w s p wh))) = sessions (db w)"
  "profiles (db (snd (upsert_subscription env w s p wh))) = profiles (db w)"
  "effects (snd (upsert_subscription env w s p wh)) = effects w"
  by (simp_all add: upsert_subscription_def Let_def utc_now_def split: option.splits)

lemma upsert_subscription_tick [simp]:
  "tick w \<le> tick (snd (upsert_subscription env w s p wh))"
proof -
  have "Suc (tick w) \<le> tick (db_upsert_subscription env (w\<lparr>tick := Suc (tick w)\<rparr>) g u q role e wh)"
    for g u q role e wh
    using db_upsert_subscription_frame(4) [of "w\<lparr>tick := Suc (tick w)\<rparr>"] by simp
  then show ?thesis
    by (auto simp: upsert_subscription_def Let_def utc_now_def split: option.splits
        intro: Suc_leD)
qed

lemma upsert_subscription_rows:
  "row \<in> set (subscriptions (db (snd (upsert_subscription env w s p wh))))
   \<Longrightarrow> row \<in> set (subscriptions (db w))
       \<or> same_subscription (s_guild_id s) (s_user_id s) (s_profile_id s) row"
  by (auto simp: upsert_subscription_def Let_def utc_now_def
      split: option.splits if_splits dest!: db_upsert_subscription_rows)

lemma upsert_subscription_ok:
  "truthy_int (p_duration_days p) \<Longrightarrow> \<exists>t. fst (upsert_subscription env w s p wh) = Inr t"
  by (auto simp: upsert_subscription_def truthy_int_def Let_def utc_now_def split: option.splits)

lemma upsert_subscription_case:
  "truthy_int (p_duration_days p) \<Longrightarrow>
   (case upsert_subscription env w s p wh of (Inl e, w2) \<Rightarrow> A e w2 | (Inr x, w2) \<Rightarrow> B w2)
     = B (snd (upsert_subscription env w s p wh))"
  using upsert_subscription_ok [of p env w s wh]
  by (cases "upsert_subscription env w s p wh") auto

lemma handle_successful_payment_structure:
  "\<exists>w1 w2. (w1 = w \<or> (\<exists>r. w1 = emit (AddRoles (s_guild_id s) (s_user_id s) r) w))
      \<and> (w2 = w1 \<or> (\<exists>wh. w2 = snd (upsert_subscription env w1 s p wh)))
      \<and> (snd (handle_successful_payment env w s (Some g) (Some p) payload) = w2
          \<or> (\<exists>url pl. snd (handle_successful_payment env w s (Some g) (Some p) payload)
                = post_webhook w2 url pl))
      \<and> fst (handle_successful_payment env w s (Some g) (Some p) payload) = None"
proof -
  let ?role = "case p_role_id p of None \<Rightarrow> None
      | Some role_id \<Rightarrow> if role_id \<noteq> 0 then get_role g role_id else None"
  let ?w1 = "case (?role, get_member g (s_user_id s)) of
      (Some r, Some m) \<Rightarrow> emit (AddRoles (s_guild_id s) m r) w | _ \<Rightarrow> w"
  let ?wh = "py_or (s_webhook_url s) (dict_get (p_parameters p) ''webhook'')"
  let ?w2 = "if truthy_int (p_duration_days p)
      then snd (upsert_subscription env ?w1 s p ?wh) else ?w1"
  let ?pl = "dict_set (dict_set payload ''discord_id'' (JStr (str_int (s_user_id s))))
                     ''subscription_active'' (JBool True)"
  have 1: "?w1 = w \<or> (\<exists>r. ?w1 = emit (AddRoles (s_guild_id s) (s_user_id s) r) w)"
    by (cases ?role; cases "get_member g (s_user_id s)")
       (auto simp: get_member_def split: if_splits)
  have 2: "?w2 = ?w1 \<or> (\<exists>wh. ?w2 = snd (upsert_subscription env ?w1 s p wh))"
    by auto
  have res: "handle_successful_payment env w s (Some g) (Some p) payload
       = (None, if truthy ?wh then post_webhook ?w2 ?wh ?pl else ?w2)"
  proof (cases "truthy_int (p_duration_days p)")
    case True
    then show ?thesis
      unfolding handle_successful_payment_def by (simp add: Let_def upsert_subscription_case)
  next
    case False
    then show ?thesis
      unfolding handle_successful_payment_def by (simp add: Let_def)
  qed
  have 3: "snd (handle_successful_payment env w s (Some g) (Some p) payload) = ?w2
          \<or> (\<exists>url pl. snd (handle_successful_payment env w s (Some g) (Some p) payload)
                = post_webhook ?w2 url pl)"
    unfolding res by (cases "truthy ?wh") auto
  have 4: "fst (handle_successful_payment env w s (Some g) (Some p) payload) = None"
    unfolding res by simp
  from 1 2 3 4 show ?thesis by blast
qed

lemma appended_refl [simp]: "appended w w Q"
  by (simp add: appended_def)

lemma appended_same: "effects w' = effects w \<Longrightarrow> appended w w' Q"
  by (simp add: appended_def)

lemma appended_trans: "appended w w' Q \<Longrightarrow> appended w' w'' Q \<Longrightarrow> appended w w'' Q"
  by (auto simp: appended_def)

lemma appended_one: "effects w' = effects w @ [e] \<Longrightarrow> Q e \<Longrightarrow> appended w w' Q"
  by (simp add: appended_def)

lemma appended_mono: "appended w w' Q \<Longrightarrow> (\<And>e. Q e \<Longrightarrow> R e) \<Longrightarrow> appended w w' R"
  by (auto simp: appended_def)

lemma handle_successful_payment_ok [simp]:
  "fst (handle_successful_payment env w s guild_opt profile_opt payload) = None"
proof (cases guild_opt)
  case None
  then show ?thesis by (simp add: handle_successful_payment_def)
next
  case g: (Some g)
  show ?thesis
  proof (cases profile_opt)
    case None
    with g show ?thesis by (simp add: handle_successful_payment_def)
  next
    case (Some p)
    with g handle_successful_payment_structure [of w s env p g payload] show ?thesis by auto
  qed
qed

lemma handle_successful_payment_props:
  "sessions (db (snd (handle_successful_payment env w s guild_opt profile_opt payload)))
     = sessions (db w)
   \<and> profiles (db (snd (handle_successful_payment env w s guild_opt profile_opt payload)))
     = profiles (db w)
   \<and> tick w \<le> tick (snd (handle_successful_payment env w s guild_opt profile_opt payload))
   \<and> appended w (snd (handle_successful_payment env w s guild_opt profile_opt payload))
       (\<lambda>e. (\<exists>url pl. e = PostWebhook url pl)
            \<or> (\<exists>r. e = AddRoles (s_guild_id s) (s_user_id s) r))
   \<and> (\<forall>row \<in> set (subscriptions
                     (db (snd (handle_successful_payment env w s guild_opt profile_opt payload)))).
         row \<in> set (subscriptions (db w))
         \<or> same_subscription (s_guild_id s) (s_user_id s) (s_profile_id s) row)"
  (is "?P (snd (handle_successful_payment env w s guild_opt profile_opt payload))")
proof (cases guild_opt)
  case None
  then show ?thesis by (simp add: handle_successful_payment_def)
next
  case g: (Some g)
  show ?thesis
  proof (cases profile_opt)
    case None
    with g show ?thesis by (simp add: handle_successful_payment_def)
  next
    case (Some p)
    let ?Q = "\<lambda>e. (\<exists>url pl. e = PostWebhook url pl)
            \<or> (\<exists>r. e = AddRoles (s_guild_id s) (s_user_id s) r)"
    from handle_successful_payment_structure [of w s env p g payload]
    obtain w1 w2 where
      1: "w1 = w \<or> (\<exists>r. w1 = emit (AddRoles (s_guild_id s) (s_user_id s) r) w)" and
      2: "w2 = w1 \<or> (\<exists>wh. w2 = snd (upsert_subscription env w1 s p wh))" and
      3: "snd (handle_successful_payment env w s (Some g) (Some p) payload) = w2
          \<or> (\<exists>url pl. snd (handle_successful_payment env w s (Some g) (Some p) payload)
                = post_webhook w2 url pl)"
      by blast
    from 1 have p1: "db w1 = db w" "tick w1 = tick w" "appended w w1 ?Q"
      by (auto simp: appended_def)
    from 2 have p2: "sessions (db w2) = sessions (db w1)" "profiles (db w2) = profiles (db w1)"
      "tick w1 \<le> tick w2" "appended w1 w2 ?Q"
      "\<forall>row \<in> set (subscriptions (db w2)). row \<in> set (subscriptions (db w1))
         \<or> same_subscription (s_guild_id s) (s_user_id s) (s_profile_id s) row"
      by (auto simp: appended_def dest: upsert_subscription_rows)
    let ?w' = "snd (handle_successful_payment env w s (Some g) (Some p) payload)"
    from 3 have p3: "db ?w' = db w2" "tick ?w' = tick w2" "appended w2 ?w' ?Q"
      by (auto simp: appended_def)
    from p1 p2 p3 have "?P ?w'"
      by (auto intro: appended_trans)
    with g Some show ?thesis by simp
  qed
qed

lemma handle_status_change_finished:
  "\<exists>w1 g p payload. (w1 = w \<or> (\<exists>url pl. w1 = post_webhook w url pl))
     \<and> handle_status_change env w s ''finished'' payload_opt
         = handle_successful_payment env w1 s g p payload"
proof -
  define payload where "payload = (case payload_opt of None \<Rightarrow> [] | Some d \<Rightarrow> d)"
  define w1 where "w1 = (if truthy (s_webhook_url s)
             then post_webhook w (s_webhook_url s)
                    (dict_set payload ''discord_id'' (JStr (str_int (s_user_id s))))
             else w)"
  define g where "g = get_guild env (s_guild_id s)"
  define p where "p = (case g of None \<Rightarrow> None
              | Some g \<Rightarrow> get_payment_profile_by_id (db w1) (s_profile_id s))"
  have "handle_status_change env w s ''finished'' payload_opt
         = handle_successful_payment env w1 s g p payload"
    unfolding handle_status_change_def p_def g_def w1_def payload_def Let_def
    by (simp only: simp_thms if_True)
  moreover have "w1 = w \<or> (\<exists>url pl. w1 = post_webhook w url pl)"
    unfolding w1_def by (cases "truthy (s_webhook_url s)") (simp_all only: if_True if_False simp_thms, blast)
  ultimately show ?thesis by blast
qed


lemma handle_status_change_other:
  assumes "status \<noteq> ''finished''"
  shows "\<exists>w1. (w1 = w \<or> (\<exists>url pl. w1 = post_webhook w url pl))
     \<and> fst (handle_status_change env w s status payload_opt) = None
     \<and> (snd (handle_status_change env w s status payload_opt) = w1
         \<or> (\<exists>m t. snd (handle_status_change env w s status payload_opt)
               = notify_user env w1 s m t))"
proof -
  define payload where "payload = (case payload_opt of None \<Rightarrow> [] | Some d \<Rightarrow> d)"
  define w1 where "w1 = (if truthy (s_webhook_url s)
             then post_webhook w (s_webhook_url s)
                    (dict_set payload ''discord_id'' (JStr (str_int (s_user_id s))))
             else w)"
  have res: "handle_status_change env w s status payload_opt
         = (if status = ''paid partially''
            then (None, notify_user env w1 s
                 ''Payment received partially. Contact support to resolve the difference.''
                 ''Partial Payment'')
            else if status \<in> {''failed'', ''expired'', ''halted'', ''refunded''}
            then (None, notify_user env w1 s (''Payment status updated: **'' @ status @ ''**.'')
                 ''Payment Update'')
            else (None, w1))"
    using assms unfolding handle_status_change_def w1_def payload_def Let_def
    by (simp only: simp_thms if_False)
  have 1: "w1 = w \<or> (\<exists>url pl. w1 = post_webhook w url pl)"
    unfolding w1_def
    by (cases "truthy (s_webhook_url s)") (simp_all only: if_True if_False simp_thms, blast)
  have 2: "fst (handle_status_change env w s status payload_opt) = None"
    unfolding res by (simp split: if_splits)
  have 3: "snd (handle_status_change env w s status payload_opt) = w1
         \<or> (\<exists>m t. snd (handle_status_change env w s status payload_opt)
               = notify_user env w1 s m t)"
  proof (cases "status = ''paid partially''")
    case True
    then have "snd (handle_status_change env w s status payload_opt)
        = notify_user env w1 s
            ''Payment received partially. Contact support to resolve the difference.''
            ''Partial Payment''"
      unfolding res by (simp only: simp_thms if_True snd_conv)
    then show ?thesis by (intro disjI2 exI)
  next
    case False
    show ?thesis
    proof (cases "status \<in> {''failed'', ''expired'', ''halted'', ''refunded''}")
      case True
      with False have "snd (handle_status_change env w s status payload_opt)
        = notify_user env w1 s (''Payment status updated: **'' @ status @ ''**.'')
            ''Payment Update''"
        unfolding res by (simp only: simp_thms if_True if_False snd_conv)
      then show ?thesis by (intro disjI2 exI)
    next
      case nf: False
      with False have "snd (handle_status_change env w s status payload_opt) = w1"
        unfolding res by (simp only: simp_thms if_False snd_conv)
      then show ?thesis by (rule disjI1)
    qed
  qed
  from 1 2 3 show ?thesis by (intro exI [of _ w1] conjI)
qed

lemma handle_status_change_props:
  "fst (handle_status_change env w s status payload_opt) = None
   \<and> sessions (db (snd (handle_status_change env w s status payload_opt))) = sessions (db w)
   \<and> profiles (db (snd (handle_status_change env w s status payload_opt))) = profiles (db w)
   \<and> tick w \<le> tick (snd (handle_status_change env w s status payload_opt))
   \<and> appended w (snd (handle_status_change env w s status payload_opt))
       (\<lambda>e. (\<exists>url pl. e = PostWebhook url pl)
            \<or> (\<exists>t m b. e = NotifyUser (s_user_id s) t m b)
            \<or> (status = ''finished'' \<and> (\<exists>r. e = AddRoles (s_guild_id s) (s_user_id s) r)))
   \<and> (status \<noteq> ''finished''
        \<longrightarrow> db (snd (handle_status_change env w s status payload_opt)) = db w)
   \<and> (\<forall>row \<in> set (subscriptions (db (snd (handle_status_change env w s status payload_opt)))).
         row \<in> set (subscriptions (db w))
         \<or> (status = ''finished''
             \<and> same_subscription (s_guild_id s) (s_user_id s) (s_profile_id s) row))"
proof -
  let ?Q = "\<lambda>e. (\<exists>url pl. e = PostWebhook url pl)
            \<or> (\<exists>t m b. e = NotifyUser (s_user_id s) t m b)
            \<or> (status = ''finished'' \<and> (\<exists>r. e = AddRoles (s_guild_id s) (s_user_id s) r))"
  show ?thesis
  proof (cases "status = ''finished''")
    case True
    from handle_status_change_finished [of w env s payload_opt]
    obtain w1 g p payload where
      w1: "w1 = w \<or> (\<exists>url pl. w1 = post_webhook w url pl)" and
      hsp: "handle_status_change env w s status payload_opt
              = handle_successful_payment env w1 s g p payload"
      unfolding True by blast
    define w2 where "w2 = snd (handle_successful_payment env w1 s g p payload)"
    have res: "handle_status_change env w s status payload_opt = (None, w2)"
      using handle_successful_payment_ok [of env w1 s g p payload]
      by (simp add: hsp w2_def prod_eq_iff)
    from w1 have f1: "db w1 = db w" "tick w1 = tick w" "appended w w1 ?Q"
      by (auto simp: appended_def)
    from handle_successful_payment_props [of env w1 s g p payload]
    have h: "sessions (db w2) = sessions (db w1)" "profiles (db w2) = profiles (db w1)"
      "tick w1 \<le> tick w2"
      "appended w1 w2 (\<lambda>e. (\<exists>url pl. e = PostWebhook url pl)
            \<or> (\<exists>r. e = AddRoles (s_guild_id s) (s_user_id s) r))"
      "\<forall>row \<in> set (subscriptions (db w2)). row \<in> set (subscriptions (db w1))
         \<or> same_subscription (s_guild_id s) (s_user_id s) (s_profile_id s) row"
      unfolding w2_def by blast+
    from h(4) have a: "appended w1 w2 ?Q"
      by (rule appended_mono) (use True in blast)
    from appended_trans [OF f1(3) a] h(1,2,3,5) f1(1,2) True show ?thesis
      unfolding res by simp
  next
    case False
    from handle_status_change_other [OF False, of w env s payload_opt]
    obtain w1 where
      w1: "w1 = w \<or> (\<exists>url pl. w1 = post_webhook w url pl)" and
      ok: "fst (handle_status_change env w s status payload_opt) = None" and
      w2: "snd (handle_status_change env w s status payload_opt) = w1
         \<or> (\<exists>m t. snd (handle_status_change env w s status payload_opt)
               = notify_user env w1 s m t)"
      by blast
    define w2 where "w2 = snd (handle_status_change env w s status payload_opt)"
    from w1 have f1: "db w1 = db w" "tick w1 = tick w" "appended w w1 ?Q"
      by (auto simp: appended_def)
    from w2 have "db w2 = db w1" "tick w1 \<le> tick w2" "appended w1 w2 ?Q"
      unfolding w2_def [symmetric] by (auto simp: appended_def)
    with f1 have "db w2 = db w" "tick w \<le> tick w2" "appended w w2 ?Q"
      by (auto intro: appended_trans)
    with ok False show ?thesis
      unfolding w2_def [symmetric] by simp
  qed
qed

section \<open>One reconciliation pass\<close>

lemma lower_char_idem: "lower_char (lower_char c) = lower_char c"
  by (simp add: lower_char_def)

lemma lower_idem [simp]: "lower (lower x) = lower x"
  by (simp add: lower_def lower_char_idem)

lemma update_payment_session_status_frame [simp]:
  "profiles (db (update_payment_session_status env w i st pl)) = profiles (db w)"
  "subscriptions (db (update_payment_session_status env w i st pl)) = subscriptions (db w)"
  "effects (update_payment_session_status env w i st pl) = effects w"
  "tick (update_payment_session_status env w i st pl) = Suc (tick w)"
  by (simp_all add: update_payment_session_status_def utc_now_def)

lemma update_payment_session_status_rows:
  "sessions (db (update_payment_session_status env w i st pl))
     = map (\<lambda>r. if r_id r = i
                then r\<lparr>r_status := st, r_last_status := Some st,
                       r_last_status_check := Some (clock env (tick w)),
                       r_last_payload := Some pl\<rparr>
                else r) (sessions (db w))"
  by (simp add: update_payment_session_status_def utc_now_def)

lemma purge_session_frame [simp]:
  "profiles (db (purge_session w i)) = profiles (db w)"
  "subscriptions (db (purge_session w i)) = subscriptions (db w)"
  "effects (purge_session w i) = effects w"
  "tick (purge_session w i) = tick w"
  "sessions (db (purge_session w i)) = filter (\<lambda>r. r_id r \<noteq> i) (sessions (db w))"
  by (simp_all add: purge_session_def delete_payment_session_def)

lemma process_session_expired:
  assumes "s_expires_at s < clock env (tick w)" "s_status s \<notin> FINAL_STATUSES"
  shows "process_session env w s
    = (None, notify_user env (purge_session (snd (utc_now env w)) (s_id s)) s
               ''Payment session expired before completion.'' ''Payment Expired'')"
  using assms by (simp add: process_session_def Let_def utc_now_def)

lemma process_session_fetch_failed:
  assumes "\<not> (s_expires_at s < clock env (tick w) \<and> s_status s \<notin> FINAL_STATUSES)"
    "fetch_status env (s_status_url s) = Inl msg"
  shows "process_session env w s
    = (None, emit (FetchStatus (s_id s) (s_status_url s)) (snd (utc_now env w)))"
  using assms by (auto simp: process_session_def Let_def utc_now_def refresh_session_status_def)

lemma process_session_fetched:
  assumes "\<not> (s_expires_at s < clock env (tick w) \<and> s_status s \<notin> FINAL_STATUSES)"
    "fetch_status env (s_status_url s) = Inr payload"
  shows "\<exists>st w2 s' w3.
      st = lower (py_str (dict_get_default payload ''status'' (JStr (s_status s))))
    \<and> w2 = update_payment_session_status env
              (emit (FetchStatus (s_id s) (s_status_url s)) (snd (utc_now env w)))
              (s_id s) st payload
    \<and> s' = s\<lparr>s_status := st, s_last_payload := Some payload\<rparr>
    \<and> w3 = (if st \<noteq> s_status s
             then snd (handle_status_change env w2 s' st (Some payload)) else w2)
    \<and> process_session env w s
        = (None, if st \<in> FINAL_STATUSES then purge_session w3 (s_id s) else w3)"
proof -
  define w1 where "w1 = snd (utc_now env w)"
  define st where "st = lower (py_str (dict_get_default payload ''status'' (JStr (s_status s))))"
  define w2 where "w2 = update_payment_session_status env
              (emit (FetchStatus (s_id s) (s_status_url s)) w1) (s_id s) st payload"
  define s' where "s' = s\<lparr>s_status := st, s_last_payload := Some payload\<rparr>"
  define w3 where "w3 = (if st \<noteq> s_status s
             then snd (handle_status_change env w2 s' st (Some payload)) else w2)"
  have u: "utc_now env w = (clock env (tick w), w1)"
    by (simp add: utc_now_def w1_def)
  have r: "refresh_session_status env w1 s = (Inr (payload, s'), w2)"
    using assms(2) by (simp add: refresh_session_status_def Let_def st_def w2_def s'_def)
  have h: "(if st \<noteq> s_status s then handle_status_change env w2 s' st (Some payload)
            else (None, w2)) = (None, w3)"
    using handle_status_change_props [of env w2 s' st "Some payload"]
    by (simp add: w3_def prod_eq_iff)
  have ls: "lower (s_status s') = st" by (simp add: s'_def st_def)
  have ids: "s_id s' = s_id s" by (simp add: s'_def)
  have "process_session env w s
        = (None, if st \<in> FINAL_STATUSES then purge_session w3 (s_id s) else w3)"
    using assms(1)
    by (simp only: process_session_def Let_def u prod.case r sum.case ls h ids option.case
          if_False simp_thms split: if_splits) blast
  then show ?thesis
    using st_def w2_def s'_def w3_def unfolding w1_def by blast
qed

lemma process_session_ok [simp]: "fst (process_session env w s) = None"
proof (cases "s_expires_at s < clock env (tick w) \<and> s_status s \<notin> FINAL_STATUSES")
  case True
  then show ?thesis by (simp add: process_session_expired)
next
  case False
  then show ?thesis
  proof (cases "fetch_status env (s_status_url s)")
    case (Inl msg)
    with False show ?thesis by (simp add: process_session_fetch_failed)
  next
    case (Inr payload)
    from process_session_fetched [OF False Inr] show ?thesis by auto
  qed
qed

lemma process_session_step: "session_step env s w (snd (process_session env w s))"
proof (cases "s_expires_at s < clock env (tick w) \<and> s_status s \<notin> FINAL_STATUSES")
  case True
  then have "process_session env w s
    = (None, notify_user env (purge_session (snd (utc_now env w)) (s_id s)) s
               ''Payment session expired before completion.'' ''Payment Expired'')"
    by (simp add: process_session_expired)
  then show ?thesis
    by (auto simp: session_step_def appended_def session_effect_def distinct_map_filter
        intro: order_trans [OF _ notify_user_simps(3)])
next
  case False
  show ?thesis
  proof (cases "fetch_status env (s_status_url s)")
    case (Inl msg)
    with False show ?thesis
      by (simp add: process_session_fetch_failed session_step_def appended_def
          session_effect_def)
  next
    case (Inr payload)
    from process_session_fetched [OF False Inr]
    obtain st w2 s' w3 where
      st: "st = lower (py_str (dict_get_default payload ''status'' (JStr (s_status s))))" and
      w2: "w2 = update_payment_session_status env
              (emit (FetchStatus (s_id s) (s_status_url s)) (snd (utc_now env w)))
              (s_id s) st payload" and
      s': "s' = s\<lparr>s_status := st, s_last_payload := Some payload\<rparr>" and
      w3: "w3 = (if st \<noteq> s_status s
             then snd (handle_status_change env w2 s' st (Some payload)) else w2)" and
      res: "process_session env w s
        = (None, if st \<in> FINAL_STATUSES then purge_session w3 (s_id s) else w3)"
      by blast
    have fs: "fetched_status env s = Some st"
      by (simp add: fetched_status_def Inr st)
    let ?Q = "session_effect env s"
    have a2: "tick w \<le> tick w2" "profiles (db w2) = profiles (db w)"
      "subscriptions (db w2) = subscriptions (db w)"
      "effects w2 = effects w @ [FetchStatus (s_id s) (s_status_url s)]"
      by (simp_all add: w2)
    have r2: "\<forall>r \<in> set (sessions (db w)). r_id r \<noteq> s_id s \<longrightarrow> r \<in> set (sessions (db w2))"
      "r_id ` set (sessions (db w2)) \<subseteq> r_id ` set (sessions (db w))"
      unfolding w2 update_payment_session_status_rows by (auto simp: image_iff) force+
    have d2: "map r_id (sessions (db w2)) = map r_id (sessions (db w))"
      unfolding w2 update_payment_session_status_rows by (simp add: comp_def if_distrib cong: if_cong)
    have e2: "appended w w2 ?Q"
      by (rule appended_one [OF a2(4)]) (simp add: session_effect_def)
    have h: "sessions (db w3) = sessions (db w2)" "profiles (db w3) = profiles (db w2)"
      "tick w2 \<le> tick w3" "appended w2 w3 ?Q"
      "\<forall>row \<in> set (subscriptions (db w3)). row \<in> set (subscriptions (db w2))
         \<or> (st = ''finished''
             \<and> same_subscription (s_guild_id s) (s_user_id s) (s_profile_id s) row)"
      "st \<noteq> ''finished'' \<longrightarrow> subscriptions (db w3) = subscriptions (db w2)"
    proof -
      let ?w = "snd (handle_status_change env w2 s' st (Some payload))"
      from handle_status_change_props [of env w2 s' st "Some payload"]
      have p: "sessions (db ?w) = sessions (db w2)" "profiles (db ?w) = profiles (db w2)"
        "tick w2 \<le> tick ?w"
        "appended w2 ?w (\<lambda>e. (\<exists>url pl. e = PostWebhook url pl)
            \<or> (\<exists>t m b. e = NotifyUser (s_user_id s) t m b)
            \<or> (st = ''finished'' \<and> (\<exists>r. e = AddRoles (s_guild_id s) (s_user_id s) r)))"
        "st \<noteq> ''finished'' \<longrightarrow> db ?w = db w2"
        "\<forall>row \<in> set (subscriptions (db ?w)). row \<in> set (subscriptions (db w2))
         \<or> (st = ''finished''
             \<and> same_subscription (s_guild_id s) (s_user_id s) (s_profile_id s) row)"
        by (simp_all add: s')
      from p(4) have q: "appended w2 ?w ?Q"
        by (rule appended_mono) (auto simp: session_effect_def fs)
      show "sessions (db w3) = sessions (db w2)" "profiles (db w3) = profiles (db w2)"
        "tick w2 \<le> tick w3" "appended w2 w3 ?Q"
        "\<forall>row \<in> set (subscriptions (db w3)). row \<in> set (subscriptions (db w2))
         \<or> (st = ''finished''
             \<and> same_subscription (s_guild_id s) (s_user_id s) (s_profile_id s) row)"
        "st \<noteq> ''finished'' \<longrightarrow> subscriptions (db w3) = subscriptions (db w2)"
        using p q unfolding w3 by (simp_all split: if_splits)
    qed
    define w' where "w' = (if st \<in> FINAL_STATUSES then purge_session w3 (s_id s) else w3)"
    have f: "tick w' = tick w3" "profiles (db w') = profiles (db w3)"
      "subscriptions (db w') = subscriptions (db w3)" "effects w' = effects w3"
      "\<forall>r \<in> set (sessions (db w3)). r_id r \<noteq> s_id s \<longrightarrow> r \<in> set (sessions (db w'))"
      "r_id ` set (sessions (db w')) \<subseteq> r_id ` set (sessions (db w3))"
      "distinct (map r_id (sessions (db w3))) \<longrightarrow> distinct (map r_id (sessions (db w')))"
      by (auto simp: w'_def distinct_map_filter)
    have "session_step env s w w'"
      unfolding session_step_def
    proof (intro conjI)
      show "tick w \<le> tick w'" using a2(1) h(3) f(1) by simp
      show "profiles (db w') = profiles (db w)" using a2(2) h(2) f(2) by simp
      show "\<forall>r \<in> set (sessions (db w)). r_id r \<noteq> s_id s \<longrightarrow> r \<in> set (sessions (db w'))"
        using r2(1) h(1) f(5) by simp
      show "r_id ` set (sessions (db w')) \<subseteq> r_id ` set (sessions (db w))"
        using r2(2) h(1) f(6) by auto
      show "distinct (map r_id (sessions (db w))) \<longrightarrow> distinct (map r_id (sessions (db w')))"
        using d2 h(1) f(7) by simp
      show "appended w w' ?Q"
        using appended_trans [OF e2 h(4)] f(4) by (simp add: appended_def)
      show "\<forall>row \<in> set (subscriptions (db w')).
           row \<in> set (subscriptions (db w))
           \<or> (same_subscription (s_guild_id s) (s_user_id s) (s_profile_id s) row
               \<and> fetched_status env s = Some ''finished'')"
        using h(5) a2(3) f(3) fs by auto
      show "fetched_status env s \<noteq> Some ''finished''
          \<longrightarrow> subscriptions (db w') = subscriptions (db w)"
        using h(6) a2(3) f(3) fs by simp
    qed
    then show ?thesis by (simp add: res w'_def)
  qed
qed

lemma pass_step_Nil: "pass_step env [] w w"
  by (simp add: pass_step_def)

lemma pass_step_Cons:
  assumes a: "session_step env s w w1" and b: "pass_step env rest w1 w'"
  shows "pass_step env (s # rest) w w'"
  unfolding pass_step_def
proof (intro conjI)
  show "tick w \<le> tick w'"
    using a b by (auto simp: session_step_def pass_step_def)
  show "profiles (db w') = profiles (db w)"
    using a b by (simp add: session_step_def pass_step_def)
  show "\<forall>r \<in> set (sessions (db w)). r_id r \<notin> s_id ` set (s # rest) \<longrightarrow> r \<in> set (sessions (db w'))"
    using a b by (simp add: session_step_def pass_step_def)
  show "r_id ` set (sessions (db w')) \<subseteq> r_id ` set (sessions (db w))"
    using a b unfolding session_step_def pass_step_def by blast
  show "distinct (map r_id (sessions (db w))) \<longrightarrow> distinct (map r_id (sessions (db w')))"
    using a b by (simp add: session_step_def pass_step_def)
  from a have "appended w w1 (session_effect env s)"
    by (simp add: session_step_def)
  then have "appended w w1 (\<lambda>e. \<exists>x \<in> set (s # rest). session_effect env x e)"
    by (rule appended_mono) simp
  moreover from b have "appended w1 w' (\<lambda>e. \<exists>x \<in> set rest. session_effect env x e)"
    by (simp add: pass_step_def)
  then have "appended w1 w' (\<lambda>e. \<exists>x \<in> set (s # rest). session_effect env x e)"
    by (rule appended_mono) auto
  ultimately show "appended w w' (\<lambda>e. \<exists>x \<in> set (s # rest). session_effect env x e)"
    by (rule appended_trans)
  show "\<forall>row \<in> set (subscriptions (db w')).
           row \<in> set (subscriptions (db w))
           \<or> (\<exists>x \<in> set (s # rest).
                  same_subscription (s_guild_id x) (s_user_id x) (s_profile_id x) row
                  \<and> fetched_status env x = Some ''finished'')"
  proof
    fix row assume "row \<in> set (subscriptions (db w'))"
    with b have "row \<in> set (subscriptions (db w1))
           \<or> (\<exists>x \<in> set rest. same_subscription (s_guild_id x) (s_user_id x) (s_profile_id x) row
                  \<and> fetched_status env x = Some ''finished'')"
      by (simp add: pass_step_def)
    moreover have "row \<in> set (subscriptions (db w1)) \<Longrightarrow> row \<in> set (subscriptions (db w))
           \<or> (same_subscription (s_guild_id s) (s_user_id s) (s_profile_id s) row
               \<and> fetched_status env s = Some ''finished'')"
      using a by (simp add: session_step_def)
    ultimately show "row \<in> set (subscriptions (db w))
           \<or> (\<exists>x \<in> set (s # rest).
                  same_subscription (s_guild_id x) (s_user_id x) (s_profile_id x) row
                  \<and> fetched_status env x = Some ''finished'')"
      by auto
  qed
  show "(\<forall>x \<in> set (s # rest). fetched_status env x \<noteq> Some ''finished'')
          \<longrightarrow> subscriptions (db w') = subscriptions (db w)"
    using a b by (simp add: session_step_def pass_step_def)
qed

lemma process_sessions_Cons:
  "process_sessions env w (s # rest) = process_sessions env (snd (process_session env w s)) rest"
  using process_session_ok [of env w s]
  by (cases "process_session env w s") simp

lemma process_sessions_ok [simp]: "fst (process_sessions env w ss) = None"
  by (induction ss arbitrary: w) (simp_all add: process_sessions_Cons del: process_sessions.simps(2))

lemma process_sessions_step: "pass_step env ss w (snd (process_sessions env w ss))"
proof (induction ss arbitrary: w)
  case Nil
  show ?case by (simp add: pass_step_Nil)
next
  case (Cons s rest)
  show ?case
    unfolding process_sessions_Cons
    by (rule pass_step_Cons [OF process_session_step Cons.IH])
qed

end
